theory Spec2Isabelle
  imports Complex_Main
begin

section \<open>Python values, exceptions and strings\<close>

text \<open>
  The module \<^verbatim>\<open>ginga/util/wcsmod.py\<close> reads FITS-style headers: dictionaries from
  keyword strings to values that are floats, strings or booleans. Floats are modelled
  as real numbers: every comparison of the source is exact on finite floats, and the
  arithmetic of the fallback engine is embedded operation by operation over the reals
  (rounding is not modelled).
\<close>

datatype pyval = PyFloat real | PyStr string | PyBool bool

type_synonym header = "string \<rightharpoonup> pyval"

text \<open>
  The exceptions the modelled code can raise. \<open>AssertionError\<close> and \<open>WCSError\<close> carry
  the fixed part of the source's message (the formatted number is left out).
\<close>

datatype pyexc =
    KeyError string
  | AttributeError
  | ValueError
  | ZeroDivisionError
  | AssertionError string
  | WCSError string
  | ImportError

text \<open>Whitespace as \<^verbatim>\<open>str.strip()\<close> sees it: space, tab, newline, VT, FF, CR.\<close>

definition py_isspace :: "char \<Rightarrow> bool" where
  "py_isspace c =
     (c = CHR '' '' \<or> c = CHR 0x09 \<or> c = CHR 0x0A \<or> c = CHR 0x0B \<or> c = CHR 0x0C \<or> c = CHR 0x0D)"

definition strip :: "string \<Rightarrow> string" where
  "strip s = rev (dropWhile py_isspace (rev (dropWhile py_isspace s)))"

text \<open>\<^verbatim>\<open>str.upper()\<close> and \<^verbatim>\<open>str.lower()\<close> on byte strings: the ASCII letters only.\<close>

definition upper_char :: "char \<Rightarrow> char" where
  "upper_char c =
     (let n = (of_char c :: nat) in if 97 \<le> n \<and> n \<le> 122 then char_of (n - 32) else c)"

definition lower_char :: "char \<Rightarrow> char" where
  "lower_char c =
     (let n = (of_char c :: nat) in if 65 \<le> n \<and> n \<le> 90 then char_of (n + 32) else c)"

definition upper :: "string \<Rightarrow> string" where
  "upper s = map upper_char s"

definition lower :: "string \<Rightarrow> string" where
  "lower s = map lower_char s"

text \<open>
  Looking up the attribute \<^verbatim>\<open>strip\<close> or \<^verbatim>\<open>upper\<close> on a header value: only a
  string has it; on a float or a boolean Python raises \<^verbatim>\<open>AttributeError\<close>.
\<close>

definition str_attr :: "pyval \<Rightarrow> pyexc + string" where
  "str_attr v = (case v of PyStr s \<Rightarrow> Inr s | PyFloat _ \<Rightarrow> Inl AttributeError
                 | PyBool _ \<Rightarrow> Inl AttributeError)"

text \<open>
  \<^verbatim>\<open>re.match(r'^LIT.*$', s)\<close> for a literal prefix \<open>LIT\<close>: the string starts with
  the literal, and the rest holds no newline except possibly as its last character
  (the dot does not match a newline; the dollar also matches before a final newline).
\<close>

definition re_match_prefix :: "string \<Rightarrow> string \<Rightarrow> bool" where
  "re_match_prefix lit s =
     (take (length lit) s = lit \<and>
      (let r = drop (length lit) s in
       if CHR 0x0A \<in> set r then last r = CHR 0x0A \<and> CHR 0x0A \<notin> set (butlast r) else True))"

section \<open>The coordinate-system classifier\<close>

text \<open>
  The frame string of the right-ascension branch, as the nested \<^verbatim>\<open>try\<close> blocks find
  it: \<^verbatim>\<open>RADECSYS\<close> first, then \<^verbatim>\<open>RADESYS\<close>, then \<^verbatim>\<open>'FK5'\<close> when
  \<^verbatim>\<open>EQUINOX\<close> is a key of the header and \<^verbatim>\<open>'ICRS'\<close> otherwise.
\<close>

definition lookup_radecsys :: "header \<Rightarrow> pyval" where
  "lookup_radecsys hdr =
     (case hdr ''RADECSYS'' of
        Some v \<Rightarrow> v
      | None \<Rightarrow>
          (case hdr ''RADESYS'' of
             Some v \<Rightarrow> v
           | None \<Rightarrow>
               (case hdr ''EQUINOX'' of
                  Some _ \<Rightarrow> PyStr ''FK5''
                | None \<Rightarrow> PyStr ''ICRS'')))"

text \<open>The module-level helper \<^verbatim>\<open>choose_coord_system(header)\<close>.\<close>

definition choose_coord_system :: "header \<Rightarrow> pyexc + string" where
  "choose_coord_system hdr =
     (case hdr ''CTYPE1'' of
        None \<Rightarrow> Inr ''raw''
      | Some v \<Rightarrow>
          (case str_attr v of
             Inl e \<Rightarrow> Inl e
           | Inr s \<Rightarrow>
               (let ctype = upper (strip s) in
                if re_match_prefix ''GLON-'' ctype then Inr ''galactic''
                else if re_match_prefix ''ELON-'' ctype then Inr ''ecliptic''
                else if re_match_prefix ''RA---'' ctype then
                  (case str_attr (lookup_radecsys hdr) of
                     Inl e \<Rightarrow> Inl e
                   | Inr radecsys \<Rightarrow> Inr (lower (strip radecsys)))
                else Inr ''icrs'')))"

text \<open>The method \<^verbatim>\<open>AstLibWCS.choose_coord_system(self, header)\<close>.\<close>

definition AstLibWCS_choose_coord_system :: "header \<Rightarrow> pyexc + string" where
  "AstLibWCS_choose_coord_system hdr =
     (case hdr ''CTYPE1'' of
        None \<Rightarrow> Inr ''raw''
      | Some v \<Rightarrow>
          (case str_attr v of
             Inl e \<Rightarrow> Inl e
           | Inr s \<Rightarrow>
               (let ctype = upper (strip s) in
                if re_match_prefix ''GLON-'' ctype then Inr ''galactic''
                else if re_match_prefix ''RA---'' ctype then
                  (case str_attr (lookup_radecsys hdr) of
                     Inl e \<Rightarrow> Inl e
                   | Inr radecsys \<Rightarrow>
                       if upper (strip radecsys) = ''FK4'' then Inr ''b1950'' else Inr ''j2000'')
                else Inr ''j2000'')))"

section \<open>The engine registry\<close>

text \<open>
  The module variables that \<^verbatim>\<open>use()\<close> configures (the block at the top of the
  module). \<open>WCS\<close> names the active engine class; it is \<^verbatim>\<open>None\<close> before the module
  is initialised. The module names bound by the import statements themselves are not
  part of the record.
\<close>

datatype wcs_class =
  NoWCS | KapteynWCS | StarlinkWCS | AstLibWCS | AstropyWCS | BareBonesWCS

record registry =
  coord_types :: "string list"
  wcs_configured :: bool
  have_kapteyn :: bool
  have_astlib :: bool
  have_pywcs :: bool
  have_astropy :: bool
  have_starlink :: bool
  WCS :: wcs_class

text \<open>
  The environment: for each import statement of \<^verbatim>\<open>use()\<close>, whether it succeeds
  (\<open>False\<close>: it raises \<^verbatim>\<open>ImportError\<close>).
\<close>

record imports_env =
  imp_kapteyn_wcs :: bool
  imp_starlink_Ast :: bool
  imp_starlink_Atl :: bool
  imp_astLib :: bool
  imp_astropy_io_fits :: bool
  imp_pyfits :: bool
  imp_astropy_wcs :: bool
  imp_pywcs :: bool
  imp_astropy_coordinates :: bool
  imp_astropy_units :: bool

text \<open>
  The second \<^verbatim>\<open>try\<close> block of the \<^verbatim>\<open>'astropy'\<close> branch: import
  \<^verbatim>\<open>coordinates\<close> and \<^verbatim>\<open>units\<close>, then configure.
\<close>

definition use_astropy_coordinates :: "bool \<Rightarrow> imports_env \<Rightarrow> registry \<Rightarrow> (pyexc + bool) \<times> registry" where
  "use_astropy_coordinates raise_err env g =
     (if imp_astropy_coordinates env \<and> imp_astropy_units env then
        (Inr True, g\<lparr>have_astropy := True, wcs_configured := True,
                      coord_types := [''icrs'', ''fk5'', ''fk4'', ''galactic''],
                      WCS := AstropyWCS\<rparr>)
      else if raise_err then (Inl ImportError, g)
      else (Inr False, g))"

text \<open>
  \<^verbatim>\<open>use(wcspkg, raise_err=True)\<close>: the result (or the exception raised) and the
  module variables afterwards. In the \<^verbatim>\<open>'astropy'\<close> branch \<^verbatim>\<open>have_pywcs\<close> is
  assigned without a \<^verbatim>\<open>global\<close> declaration, so the module variable keeps its
  value; when neither \<^verbatim>\<open>astropy.wcs\<close> nor \<^verbatim>\<open>pywcs\<close> can be imported and
  \<open>raise_err\<close> is false, control falls through to the second \<^verbatim>\<open>try\<close> block.
\<close>

definition use :: "string \<Rightarrow> bool \<Rightarrow> imports_env \<Rightarrow> registry \<Rightarrow> (pyexc + bool) \<times> registry" where
  "use wcspkg raise_err env g =
     (if wcspkg = ''kapteyn'' then
        (if imp_kapteyn_wcs env then
           (Inr True, g\<lparr>coord_types := [''icrs'', ''fk5'', ''fk4'', ''galactic'', ''ecliptic''],
                         have_kapteyn := True, wcs_configured := True, WCS := KapteynWCS\<rparr>)
         else if raise_err then (Inl ImportError, g)
         else (Inr False, g))
      else if wcspkg = ''starlink'' then
        (if imp_starlink_Ast env \<and> imp_starlink_Atl env then
           (Inr True, g\<lparr>coord_types := [''icrs'', ''fk5'', ''fk4'', ''galactic'', ''ecliptic''],
                         have_starlink := True, wcs_configured := True, WCS := StarlinkWCS\<rparr>)
         else if raise_err then (Inl ImportError, g)
         else (Inr False, g))
      else if wcspkg = ''astlib'' then
        (if imp_astLib env \<and> (imp_astropy_io_fits env \<or> imp_pyfits env) then
           (Inr True, g\<lparr>coord_types := [''j2000'', ''b1950'', ''galactic''],
                         have_astlib := True, wcs_configured := True, WCS := AstLibWCS\<rparr>)
         else if raise_err then (Inl ImportError, g)
         else (Inr False, g))
      else if wcspkg = ''astropy'' then
        (if imp_astropy_wcs env \<and> imp_astropy_io_fits env then
           use_astropy_coordinates raise_err env g
         else if imp_pywcs env then use_astropy_coordinates raise_err env g
         else if raise_err then (Inl ImportError, g)
         else use_astropy_coordinates raise_err env g)
      else if wcspkg = ''barebones'' then
        (Inr False, g\<lparr>coord_types := [''fk5''], WCS := BareBonesWCS\<rparr>)
      else (Inr False, g))"

text \<open>The module variables as the top of the module sets them.\<close>

definition module_vars :: registry where
  "module_vars =
     \<lparr>coord_types = [], wcs_configured = False, have_kapteyn = False, have_astlib = False,
      have_pywcs = False, have_astropy = False, have_starlink = False, WCS = NoWCS\<rparr>"

text \<open>
  The loop at the end of the module: \<^verbatim>\<open>use(name, raise_err=False)\<close> for each name
  in turn, leaving the loop at the first that returns true.
\<close>

fun try_in_order :: "string list \<Rightarrow> imports_env \<Rightarrow> registry \<Rightarrow> (pyexc + unit) \<times> registry" where
  "try_in_order [] env g = (Inr (), g)"
| "try_in_order (name # names) env g =
     (case use name False env g of
        (Inl e, g') \<Rightarrow> (Inl e, g')
      | (Inr ok, g') \<Rightarrow> if ok then (Inr (), g') else try_in_order names env g')"

text \<open>Module initialisation: the \<^verbatim>\<open>if not wcs_configured:\<close> block, run on the initial variables.\<close>

definition module_init :: "imports_env \<Rightarrow> (pyexc + unit) \<times> registry" where
  "module_init env =
     (if \<not> wcs_configured module_vars then
        try_in_order [''kapteyn'', ''starlink'', ''pyast'', ''astropy''] env
          (module_vars\<lparr>WCS := BareBonesWCS\<rparr>)
      else (Inr (), module_vars))"

text \<open>An environment in which no import of \<^verbatim>\<open>use()\<close> succeeds.\<close>

definition no_imports :: imports_env where
  "no_imports =
     \<lparr>imp_kapteyn_wcs = False, imp_starlink_Ast = False, imp_starlink_Atl = False,
      imp_astLib = False, imp_astropy_io_fits = False, imp_pyfits = False,
      imp_astropy_wcs = False, imp_pywcs = False, imp_astropy_coordinates = False,
      imp_astropy_units = False\<rparr>"

text \<open>
  An environment with an astropy whose \<^verbatim>\<open>wcs\<close> module cannot be imported, and no
  \<^verbatim>\<open>pywcs\<close>: the imports of \<^verbatim>\<open>astropy.coordinates\<close> and \<^verbatim>\<open>astropy.units\<close>
  succeed.
\<close>

definition no_wcs_library :: imports_env where
  "no_wcs_library =
     \<lparr>imp_kapteyn_wcs = False, imp_starlink_Ast = False, imp_starlink_Atl = False,
      imp_astLib = False, imp_astropy_io_fits = True, imp_pyfits = False,
      imp_astropy_wcs = False, imp_pywcs = False, imp_astropy_coordinates = True,
      imp_astropy_units = True\<rparr>"

section \<open>The fallback engine\<close>

text \<open>
  A \<^verbatim>\<open>BareBonesWCS\<close> object: its header dictionary, the coordinate system found at
  load time and its \<^verbatim>\<open>kind\<close> (the logger is left out).
\<close>

record barebones =
  header :: header
  coordsys :: string
  kind :: string

definition BareBonesWCS_init :: barebones where
  "BareBonesWCS_init = \<lparr>header = Map.empty, coordsys = ''raw'', kind = ''barebones''\<rparr>"

text \<open>\<^verbatim>\<open>BaseWCS.get_keyword(self, key)\<close>: \<^verbatim>\<open>self.header[key]\<close>.\<close>

definition get_keyword :: "barebones \<Rightarrow> string \<Rightarrow> pyexc + pyval" where
  "get_keyword self key = (case header self key of None \<Rightarrow> Inl (KeyError key) | Some v \<Rightarrow> Inr v)"

text \<open>
  The builtin \<^verbatim>\<open>float(v)\<close>: a float is itself, a boolean is 1 or 0, a string is
  parsed. The parser of numeric strings belongs to Python, not to this module: it is
  the parameter \<open>parse\<close> (\<open>None\<close>: \<^verbatim>\<open>ValueError\<close>).
\<close>

definition py_float :: "(string \<Rightarrow> real option) \<Rightarrow> pyval \<Rightarrow> pyexc + real" where
  "py_float parse v =
     (case v of
        PyFloat r \<Rightarrow> Inr r
      | PyBool b \<Rightarrow> Inr (if b then 1 else 0)
      | PyStr s \<Rightarrow> (case parse s of None \<Rightarrow> Inl ValueError | Some r \<Rightarrow> Inr r))"

text \<open>The recurring expression \<^verbatim>\<open>float(self.get_keyword(key))\<close>.\<close>

definition float_keyword :: "(string \<Rightarrow> real option) \<Rightarrow> barebones \<Rightarrow> string \<Rightarrow> pyexc + real" where
  "float_keyword parse self key =
     (case get_keyword self key of Inl e \<Rightarrow> Inl e | Inr v \<Rightarrow> py_float parse v)"

text \<open>
  \<^verbatim>\<open>BaseWCS.fix_bad_headers\<close>, one unit keyword at a time:
  \<^verbatim>\<open>unit = self.header.get(key, 'deg')\<close>, then \<^verbatim>\<open>unit.upper() == 'DEGREE'\<close>.
\<close>

definition fix_unit :: "string \<Rightarrow> header \<Rightarrow> pyexc + header" where
  "fix_unit key hdr =
     (case str_attr (case hdr key of None \<Rightarrow> PyStr ''deg'' | Some v \<Rightarrow> v) of
        Inl e \<Rightarrow> Inl e
      | Inr unit \<Rightarrow> Inr (if upper unit = ''DEGREE'' then hdr(key \<mapsto> PyStr ''deg'') else hdr))"

definition fix_bad_headers :: "barebones \<Rightarrow> (pyexc + unit) \<times> barebones" where
  "fix_bad_headers self =
     (case fix_unit ''CUNIT1'' (header self) of
        Inl e \<Rightarrow> (Inl e, self)
      | Inr h1 \<Rightarrow>
          (case fix_unit ''CUNIT2'' h1 of
             Inl e \<Rightarrow> (Inl e, self\<lparr>header := h1\<rparr>)
           | Inr h2 \<Rightarrow> (Inr (), self\<lparr>header := h2\<rparr>)))"

text \<open>
  \<^verbatim>\<open>BareBonesWCS.load_header(self, header)\<close>: copy the dictionary, fix the unit
  strings, classify. An exception leaves the object as the statements before it made it.
\<close>

definition load_header :: "barebones \<Rightarrow> header \<Rightarrow> (pyexc + unit) \<times> barebones" where
  "load_header self hdr =
     (case fix_bad_headers (self\<lparr>header := hdr\<rparr>) of
        (Inl e, self1) \<Rightarrow> (Inl e, self1)
      | (Inr _, self1) \<Rightarrow>
          (case choose_coord_system (header self1) of
             Inl e \<Rightarrow> (Inl e, self1)
           | Inr cs \<Rightarrow> (Inr (), self1\<lparr>coordsys := cs\<rparr>)))"

definition get_reference_pixel :: "(string \<Rightarrow> real option) \<Rightarrow> barebones \<Rightarrow> pyexc + real \<times> real" where
  "get_reference_pixel parse self =
     (case float_keyword parse self ''CRPIX1'' of
        Inl e \<Rightarrow> Inl e
      | Inr x \<Rightarrow>
          (case float_keyword parse self ''CRPIX2'' of
             Inl e \<Rightarrow> Inl e
           | Inr y \<Rightarrow> Inr (x, y)))"

definition get_physical_reference_pixel :: "(string \<Rightarrow> real option) \<Rightarrow> barebones \<Rightarrow> pyexc + real \<times> real" where
  "get_physical_reference_pixel parse self =
     (case float_keyword parse self ''CRVAL1'' of
        Inl e \<Rightarrow> Inl e
      | Inr xv \<Rightarrow>
          (case float_keyword parse self ''CRVAL2'' of
             Inl e \<Rightarrow> Inl e
           | Inr yv \<Rightarrow>
               if \<not> (0 \<le> xv \<and> xv < 360) then Inl (AssertionError ''CRVAL1 out of range'')
               else if \<not> (- 90 \<le> yv \<and> yv \<le> 90) then Inl (AssertionError ''CRVAL2 out of range'')
               else Inr (xv, yv)))"

text \<open>Four \<^verbatim>\<open>float(self.get_keyword(...))\<close> in a row: the first exception wins.\<close>

definition float_keywords4 ::
  "(string \<Rightarrow> real option) \<Rightarrow> barebones \<Rightarrow> string \<Rightarrow> string \<Rightarrow> string \<Rightarrow> string \<Rightarrow>
   pyexc + real \<times> real \<times> real \<times> real" where
  "float_keywords4 parse self k11 k12 k21 k22 =
     (case float_keyword parse self k11 of
        Inl e \<Rightarrow> Inl e
      | Inr a \<Rightarrow>
          (case float_keyword parse self k12 of
             Inl e \<Rightarrow> Inl e
           | Inr b \<Rightarrow>
               (case float_keyword parse self k21 of
                  Inl e \<Rightarrow> Inl e
                | Inr c \<Rightarrow>
                    (case float_keyword parse self k22 of
                       Inl e \<Rightarrow> Inl e
                     | Inr d \<Rightarrow> Inr (a, b, c, d)))))"

text \<open>
  \<^verbatim>\<open>get_pixel_coordinates\<close>: the CD keywords; on any exception the PC matrix scaled
  by CDELT, under the keywords \<^verbatim>\<open>PCi_j\<close> and, on a \<^verbatim>\<open>KeyError\<close> only, under
  \<^verbatim>\<open>PC00i00j\<close>.
\<close>

definition get_pixel_coordinates ::
  "(string \<Rightarrow> real option) \<Rightarrow> barebones \<Rightarrow> pyexc + real \<times> real \<times> real \<times> real" where
  "get_pixel_coordinates parse self =
     (case float_keywords4 parse self ''CD1_1'' ''CD1_2'' ''CD2_1'' ''CD2_2'' of
        Inr cd \<Rightarrow> Inr cd
      | Inl _ \<Rightarrow>
          (case float_keyword parse self ''CDELT1'' of
             Inl e \<Rightarrow> Inl e
           | Inr cdelt1 \<Rightarrow>
               (case float_keyword parse self ''CDELT2'' of
                  Inl e \<Rightarrow> Inl e
                | Inr cdelt2 \<Rightarrow>
                    (case float_keywords4 parse self ''PC1_1'' ''PC1_2'' ''PC2_1'' ''PC2_2'' of
                       Inr (p11, p12, p21, p22) \<Rightarrow>
                         Inr (p11 * cdelt1, p12 * cdelt1, p21 * cdelt2, p22 * cdelt2)
                     | Inl (KeyError _) \<Rightarrow>
                         (case float_keywords4 parse self
                                 ''PC001001'' ''PC001002'' ''PC002001'' ''PC002002'' of
                            Inr (p11, p12, p21, p22) \<Rightarrow>
                              Inr (p11 * cdelt1, p12 * cdelt1, p21 * cdelt2, p22 * cdelt2)
                          | Inl e \<Rightarrow> Inl e)
                     | Inl e \<Rightarrow> Inl e))))"

text \<open>\<^verbatim>\<open>math.radians\<close>, and \<^verbatim>\<open>crval2 * math.pi/180.0\<close> of the inverse transform.\<close>

definition radians :: "real \<Rightarrow> real" where
  "radians d = d * pi / 180"

text \<open>
  \<^verbatim>\<open>pixtoradec(self, idxs, coords='data')\<close>. \<^verbatim>\<open>x, y = idxs[:2]\<close> needs two
  elements; Python's float division raises \<^verbatim>\<open>ZeroDivisionError\<close> on a zero divisor.
  Over the reals the divisor \<open>cos (radians crval2)\<close> is zero at a \<^verbatim>\<open>CRVAL2\<close> of 90
  or -90, where the cosine computed in floats is only close to zero.
\<close>

definition pixtoradec ::
  "(string \<Rightarrow> real option) \<Rightarrow> barebones \<Rightarrow> real list \<Rightarrow> string \<Rightarrow> pyexc + real \<times> real" where
  "pixtoradec parse self idxs coords =
     (case take 2 idxs of
        [x0, y0] \<Rightarrow>
          (let x = (if coords = ''data'' then x0 + 1 else x0);
               y = (if coords = ''data'' then y0 + 1 else y0)
           in case get_reference_pixel parse self of
                Inl e \<Rightarrow> Inl e
              | Inr (crpix1, crpix2) \<Rightarrow>
                  (case get_physical_reference_pixel parse self of
                     Inl e \<Rightarrow> Inl e
                   | Inr (crval1, crval2) \<Rightarrow>
                       (case get_pixel_coordinates parse self of
                          Inl e \<Rightarrow> Inl e
                        | Inr (cd11, cd12, cd21, cd22) \<Rightarrow>
                            if cos (radians crval2) = 0 then Inl ZeroDivisionError
                            else
                              Inr ((cd11 * (x - crpix1) + cd12 * (y - crpix2))
                                     / cos (radians crval2) + crval1,
                                   cd21 * (x - crpix1) + cd22 * (y - crpix2) + crval2))))
      | _ \<Rightarrow> Inl ValueError)"

text \<open>Python 2's \<^verbatim>\<open>cmp\<close> on two numbers.\<close>

definition cmp :: "real \<Rightarrow> real \<Rightarrow> int" where
  "cmp a b = (if a < b then - 1 else if a = b then 0 else 1)"

text \<open>
  \<^verbatim>\<open>radectopix(self, ra_deg, dec_deg, coords='data', naxispath=None)\<close>; the
  fallback engine never reads \<^verbatim>\<open>naxispath\<close>. The division by the determinant
  stands in a \<^verbatim>\<open>try\<close> block that turns any exception into a \<^verbatim>\<open>WCSError\<close>.
  The control flow is the source's; the numbers are not: the source computes the
  determinant and the quotients in doubles, where a product can underflow to zero and
  a nearly singular matrix loses every digit, so nothing below speaks of how close
  the computed pixel is to the exact one.
\<close>

definition radectopix ::
  "(string \<Rightarrow> real option) \<Rightarrow> barebones \<Rightarrow> real \<Rightarrow> real \<Rightarrow> string \<Rightarrow> pyexc + real \<times> real" where
  "radectopix parse self ra_deg0 dec_deg coords =
     (case get_reference_pixel parse self of
        Inl e \<Rightarrow> Inl e
      | Inr (crpix1, crpix2) \<Rightarrow>
          (case get_physical_reference_pixel parse self of
             Inl e \<Rightarrow> Inl e
           | Inr (crval1, crval2) \<Rightarrow>
               (case get_pixel_coordinates parse self of
                  Inl e \<Rightarrow> Inl e
                | Inr (cd11, cd12, cd21, cd22) \<Rightarrow>
                    (let rmatrix = (cd11 * cd22) - (cd12 * cd21) in
                     if cmp rmatrix 0 = 0 then Inl (WCSError ''WCS Matrix Error: check values'')
                     else
                       (let ra_deg =
                              (if ra_deg0 - crval1 > 180 then ra_deg0 - 360
                               else if ra_deg0 - crval1 < - 180 then ra_deg0 + 360
                               else ra_deg0)
                        in if rmatrix = 0 then Inl (WCSError ''radectopix calculation error'')
                           else
                             (let x = (cd22 * cos (radians crval2) * (ra_deg - crval1)
                                         - cd12 * (dec_deg - crval2)) / rmatrix + crpix1;
                                  y = (cd11 * (dec_deg - crval2)
                                         - cd21 * cos (radians crval2) * (ra_deg - crval1))
                                        / rmatrix + crpix2
                              in if coords = ''data'' then Inr (x - 1, y - 1) else Inr (x, y)))))))"

text \<open>\<^verbatim>\<open>pixtocoords\<close> of the fallback engine returns \<^verbatim>\<open>None\<close> whatever it is given.\<close>

definition pixtocoords :: "barebones \<Rightarrow> real list \<Rightarrow> string \<Rightarrow> string \<Rightarrow> (real \<times> real) option" where
  "pixtocoords self idxs system coords = None"

text \<open>
  Concrete engines for the scenarios of the specification. The first header is the one
  of its fallback-engine scenario; the second has a CD matrix of determinant zero; the
  third kind holds only a reference sky position. No header value below is a string,
  so the string parser is never called: \<open>no_parse\<close> parses nothing.
\<close>

definition scenario_header :: header where
  "scenario_header =
     [''CRPIX1'' \<mapsto> PyFloat 50, ''CRPIX2'' \<mapsto> PyFloat 50,
      ''CRVAL1'' \<mapsto> PyFloat 180, ''CRVAL2'' \<mapsto> PyFloat 0,
      ''CD1_1'' \<mapsto> PyFloat (- 0.001), ''CD1_2'' \<mapsto> PyFloat 0,
      ''CD2_1'' \<mapsto> PyFloat 0, ''CD2_2'' \<mapsto> PyFloat 0.001]"


definition crval_engine :: "real \<Rightarrow> real \<Rightarrow> barebones" where
  "crval_engine xv yv =
     BareBonesWCS_init\<lparr>header := [''CRVAL1'' \<mapsto> PyFloat xv, ''CRVAL2'' \<mapsto> PyFloat yv]\<rparr>"

definition no_parse :: "string \<Rightarrow> real option" where
  "no_parse s = None"

section \<open>Properties of the classifier\<close>

lemma re_match_prefix_take: "re_match_prefix lit s \<Longrightarrow> take (length lit) s = lit"
  by (simp add: re_match_prefix_def)

lemma ra_not_glon: "re_match_prefix ''RA---'' c \<Longrightarrow> \<not> re_match_prefix ''GLON-'' c"
  by (auto dest!: re_match_prefix_take)

lemma ra_not_elon: "re_match_prefix ''RA---'' c \<Longrightarrow> \<not> re_match_prefix ''ELON-'' c"
  by (auto dest!: re_match_prefix_take)

lemma lower_strip_FK5: "lower (strip ''FK5'') = ''fk5''"
  by code_simp

lemma lower_strip_ICRS: "lower (strip ''ICRS'') = ''icrs''"
  by code_simp

lemma ra_tan_matches: "re_match_prefix ''RA---'' (upper (strip ''RA---TAN''))"
  by code_simp

text \<open>
  Claim C5. When \<^verbatim>\<open>CTYPE1\<close> is a string that, trimmed and in upper case, matches the
  right-ascension pattern, and the header has neither \<^verbatim>\<open>RADECSYS\<close> nor
  \<^verbatim>\<open>RADESYS\<close>, the module-level classifier returns \<^verbatim>\<open>'fk5'\<close> when
  \<^verbatim>\<open>EQUINOX\<close> is a key of the header and \<^verbatim>\<open>'icrs'\<close> otherwise.
\<close>

theorem choose_coord_system_no_frame_keyword:
  assumes "hdr ''CTYPE1'' = Some (PyStr s)"
    and "re_match_prefix ''RA---'' (upper (strip s))"
    and "hdr ''RADECSYS'' = None"
    and "hdr ''RADESYS'' = None"
  shows "choose_coord_system hdr = Inr (if hdr ''EQUINOX'' = None then ''icrs'' else ''fk5'')"
  using assms
  by (auto simp: choose_coord_system_def str_attr_def lookup_radecsys_def Let_def
      ra_not_glon ra_not_elon lower_strip_FK5 lower_strip_ICRS split: option.splits)

text \<open>
  The scenario of the claim: the header \<^verbatim>\<open>{CTYPE1: "RA---TAN"}\<close> classifies to
  \<^verbatim>\<open>'icrs'\<close>; with an \<^verbatim>\<open>EQUINOX\<close> added, to \<^verbatim>\<open>'fk5'\<close>.
\<close>

theorem choose_coord_system_no_frame_keyword_witness:
  "choose_coord_system [''CTYPE1'' \<mapsto> PyStr ''RA---TAN''] = Inr ''icrs''
   \<and> choose_coord_system [''CTYPE1'' \<mapsto> PyStr ''RA---TAN'', ''EQUINOX'' \<mapsto> PyFloat 2000] = Inr ''fk5''"
  using choose_coord_system_no_frame_keyword
          [of "[''CTYPE1'' \<mapsto> PyStr ''RA---TAN'']" "''RA---TAN''"]
        choose_coord_system_no_frame_keyword
          [of "[''CTYPE1'' \<mapsto> PyStr ''RA---TAN'', ''EQUINOX'' \<mapsto> PyFloat 2000]" "''RA---TAN''"]
        ra_tan_matches
  by simp

lemma lower_upper_char: "lower_char (upper_char c) = lower_char c"
proof (cases "97 \<le> (of_char c :: nat) \<and> (of_char c :: nat) \<le> 122")
  case True
  define n where "n = (of_char c :: nat)"
  from True have n: "97 \<le> n" "n \<le> 122" by (simp_all add: n_def)
  have u: "upper_char c = char_of (n - 32)"
    using n by (simp add: upper_char_def n_def)
  from n have m: "(n - 32) mod 256 = n - 32"
    by (intro mod_less) arith
  from n have b: "65 \<le> n - 32" "n - 32 \<le> 90" "n - 32 + 32 = n" by arith+
  have "lower_char (char_of (n - 32)) = char_of (n - 32 + 32)"
    using b(1,2) by (simp only: lower_char_def Let_def of_char_of m) simp
  also have "\<dots> = c" by (simp only: b(3)) (simp add: n_def)
  also from n have "c = lower_char c" by (simp add: lower_char_def n_def)
  finally show ?thesis by (simp add: u)
next
  case False
  then show ?thesis by (auto simp add: upper_char_def Let_def)
qed

lemma lower_upper: "lower (upper s) = lower s"
  by (simp add: lower_def upper_def lower_upper_char)

lemma lower_FK4: "lower ''FK4'' = ''fk4''"
  by code_simp

lemma upper_FK4_lower: "upper t = ''FK4'' \<Longrightarrow> lower t = ''fk4''"
  using lower_upper [of t] lower_FK4 by simp

text \<open>
  Claim C4, as the code has it. Let \<^verbatim>\<open>CTYPE1\<close> be a string that, trimmed and in upper
  case, matches the right-ascension pattern, and let the frame keyword
  (\<^verbatim>\<open>RADECSYS\<close>, or without it \<^verbatim>\<open>RADESYS\<close>) hold the string \<open>f\<close>. Then
  \<^verbatim>\<open>AstLibWCS.choose_coord_system\<close> trims and uppercases \<open>f\<close> and returns
  \<^verbatim>\<open>'b1950'\<close> when it equals \<^verbatim>\<open>FK4\<close> and \<^verbatim>\<open>'j2000'\<close> otherwise, while the
  module-level \<^verbatim>\<open>choose_coord_system\<close> returns \<open>f\<close> itself, trimmed and in lower
  case: \<^verbatim>\<open>'fk4'\<close> when \<open>f\<close> equals \<^verbatim>\<open>FK4\<close> up to case and surrounding blanks.
\<close>

theorem frame_keyword_classification:
  assumes "hdr ''CTYPE1'' = Some (PyStr s)"
    and "re_match_prefix ''RA---'' (upper (strip s))"
    and "hdr ''RADECSYS'' = Some (PyStr f)
         \<or> (hdr ''RADECSYS'' = None \<and> hdr ''RADESYS'' = Some (PyStr f))"
  shows "AstLibWCS_choose_coord_system hdr =
           Inr (if upper (strip f) = ''FK4'' then ''b1950'' else ''j2000'')
         \<and> choose_coord_system hdr = Inr (lower (strip f))
         \<and> (upper (strip f) = ''FK4'' \<longrightarrow> choose_coord_system hdr = Inr ''fk4'')"
proof -
  from assms(3) have fr: "lookup_radecsys hdr = PyStr f"
    by (auto simp: lookup_radecsys_def)
  have a: "AstLibWCS_choose_coord_system hdr =
           Inr (if upper (strip f) = ''FK4'' then ''b1950'' else ''j2000'')"
    using assms(1,2) fr
    by (simp add: AstLibWCS_choose_coord_system_def str_attr_def Let_def ra_not_glon)
  have b: "choose_coord_system hdr = Inr (lower (strip f))"
    using assms(1,2) fr
    by (simp add: choose_coord_system_def str_attr_def Let_def ra_not_glon ra_not_elon)
  from a b show ?thesis
    by (simp add: upper_FK4_lower)
qed

lemma upper_strip_FK4: "upper (strip ''FK4'') = ''FK4''"
  by code_simp

text \<open>
  The scenario of claim C4: \<^verbatim>\<open>{CTYPE1: "RA---TAN", RADESYS: "FK4"}\<close> classifies to the
  1950-epoch tag of either vocabulary.
\<close>

theorem frame_keyword_classification_witness:
  "AstLibWCS_choose_coord_system
     [''CTYPE1'' \<mapsto> PyStr ''RA---TAN'', ''RADESYS'' \<mapsto> PyStr ''FK4''] = Inr ''b1950''
   \<and> choose_coord_system
     [''CTYPE1'' \<mapsto> PyStr ''RA---TAN'', ''RADESYS'' \<mapsto> PyStr ''FK4''] = Inr ''fk4''"
proof -
  let ?hdr = "[''CTYPE1'' \<mapsto> PyStr ''RA---TAN'', ''RADESYS'' \<mapsto> PyStr ''FK4'']"
  have c: "?hdr ''CTYPE1'' = Some (PyStr ''RA---TAN'')"
    by simp
  have f: "?hdr ''RADECSYS'' = Some (PyStr ''FK4'')
           \<or> (?hdr ''RADECSYS'' = None \<and> ?hdr ''RADESYS'' = Some (PyStr ''FK4''))"
    by simp
  note r = frame_keyword_classification [OF c ra_tan_matches f]
  have e: "(if upper (strip ''FK4'') = ''FK4'' then ''b1950'' else ''j2000'') = ''b1950''"
    by (simp add: upper_strip_FK4)
  from r [THEN conjunct1] have a: "AstLibWCS_choose_coord_system ?hdr = Inr ''b1950''"
    unfolding e .
  from r [THEN conjunct2, THEN conjunct2] upper_strip_FK4
  have b: "choose_coord_system ?hdr = Inr ''fk4''"
    by (rule mp)
  from a b show ?thesis ..
qed

lemma upper_strip_FK5: "upper (strip ''FK5'') = ''FK5''"
  by code_simp

lemma upper_strip_GAPPT: "upper (strip ''GAPPT'') = ''GAPPT''"
  by code_simp

lemma lower_strip_GAPPT: "lower (strip ''GAPPT'') = ''gappt''"
  by code_simp

text \<open>
  Claim C4 as stated fails for the module-level classifier: two frame strings other
  than \<^verbatim>\<open>FK4\<close> get two different tags, and \<^verbatim>\<open>GAPPT\<close> gets a tag that names no
  modern frame.
\<close>

theorem modern_frame_tag_counterexample:
  "upper (strip ''FK5'') \<noteq> ''FK4''
   \<and> choose_coord_system
        [''CTYPE1'' \<mapsto> PyStr ''RA---TAN'', ''RADESYS'' \<mapsto> PyStr ''FK5''] = Inr ''fk5''
   \<and> upper (strip ''GAPPT'') \<noteq> ''FK4''
   \<and> choose_coord_system
        [''CTYPE1'' \<mapsto> PyStr ''RA---TAN'', ''RADESYS'' \<mapsto> PyStr ''GAPPT''] = Inr ''gappt''"
  using ra_tan_matches
  by (simp add: upper_strip_FK5 upper_strip_GAPPT choose_coord_system_def str_attr_def
      lookup_radecsys_def Let_def ra_not_glon ra_not_elon lower_strip_FK5 lower_strip_GAPPT)

text \<open>
  Claim C9, as the code has it. When the values of \<^verbatim>\<open>CTYPE1\<close>, \<^verbatim>\<open>RADECSYS\<close> and
  \<^verbatim>\<open>RADESYS\<close>, where present, are strings, the module-level classifier returns a
  tag and raises nothing (whatever the other values are); without \<^verbatim>\<open>CTYPE1\<close> the
  tag is \<^verbatim>\<open>'raw'\<close>. The classifier has no loop, so it always returns.
\<close>

theorem choose_coord_system_returns_on_strings:
  assumes "\<forall>k \<in> {''CTYPE1'', ''RADECSYS'', ''RADESYS''}. \<forall>v. hdr k = Some v \<longrightarrow> (\<exists>s. v = PyStr s)"
  shows "(\<exists>tag. choose_coord_system hdr = Inr tag)
         \<and> (hdr ''CTYPE1'' = None \<longrightarrow> choose_coord_system hdr = Inr ''raw'')"
proof -
  from assms have c: "hdr ''CTYPE1'' = None \<or> (\<exists>s. hdr ''CTYPE1'' = Some (PyStr s))"
    by (cases "hdr ''CTYPE1''") auto
  from assms have "\<exists>f. lookup_radecsys hdr = PyStr f"
    by (auto simp: lookup_radecsys_def split: option.splits)
  then obtain f where f: "lookup_radecsys hdr = PyStr f" ..
  from c show ?thesis
    by (auto simp: choose_coord_system_def str_attr_def Let_def f)
qed

text \<open>A header with a string \<^verbatim>\<open>CTYPE1\<close> beside a float and a boolean value.\<close>

theorem choose_coord_system_returns_on_strings_witness:
  "\<exists>tag. choose_coord_system
            [''CTYPE1'' \<mapsto> PyStr ''GLON-TAN'', ''CRPIX1'' \<mapsto> PyFloat 50, ''SIMPLE'' \<mapsto> PyBool True]
          = Inr tag"
  using choose_coord_system_returns_on_strings
          [of "[''CTYPE1'' \<mapsto> PyStr ''GLON-TAN'', ''CRPIX1'' \<mapsto> PyFloat 50, ''SIMPLE'' \<mapsto> PyBool True]"]
  by simp

text \<open>
  Claim C9 as stated fails: a float \<^verbatim>\<open>CTYPE1\<close>, or a boolean frame keyword under a
  right-ascension \<^verbatim>\<open>CTYPE1\<close>, raises \<^verbatim>\<open>AttributeError\<close> (only \<^verbatim>\<open>KeyError\<close> is
  caught).
\<close>

theorem choose_coord_system_raises_counterexample:
  "choose_coord_system [''CTYPE1'' \<mapsto> PyFloat 1] = Inl AttributeError
   \<and> choose_coord_system
        [''CTYPE1'' \<mapsto> PyStr ''RA---TAN'', ''RADESYS'' \<mapsto> PyBool True] = Inl AttributeError"
  using ra_tan_matches
  by (simp add: choose_coord_system_def str_attr_def lookup_radecsys_def Let_def
      ra_not_glon ra_not_elon)

section \<open>Properties of the registry\<close>

text \<open>
  Claim C10. From every registry state, in either mode and whatever can be imported,
  \<^verbatim>\<open>use('barebones')\<close> makes \<^verbatim>\<open>BareBonesWCS\<close> the active engine class and
  \<^verbatim>\<open>['fk5']\<close> the supported systems, returns \<^verbatim>\<open>False\<close>, and does not set
  \<^verbatim>\<open>wcs_configured\<close>: the flag keeps the value it had, so it is still unset when the
  call follows a module initialisation that found no backend.
\<close>

theorem use_barebones:
  "use ''barebones'' raise_err env g =
     (Inr False, g\<lparr>coord_types := [''fk5''], WCS := BareBonesWCS\<rparr>)
   \<and> fst (use ''barebones'' raise_err env g) = Inr False
   \<and> WCS (snd (use ''barebones'' raise_err env g)) = BareBonesWCS
   \<and> coord_types (snd (use ''barebones'' raise_err env g)) = [''fk5'']
   \<and> wcs_configured (snd (use ''barebones'' raise_err env g)) = wcs_configured g
   \<and> \<not> wcs_configured (snd (use ''barebones'' raise_err env (snd (module_init no_imports))))"
  by (simp add: use_def module_init_def module_vars_def no_imports_def use_astropy_coordinates_def)

text \<open>
  Claim C7, evaluated. When no import succeeds, module initialisation ends with
  \<^verbatim>\<open>BareBonesWCS\<close> as the active engine class, but \<^verbatim>\<open>coord_types\<close> is still the
  empty list of the top of the module, not \<^verbatim>\<open>['fk5']\<close>: only
  \<^verbatim>\<open>use('barebones')\<close> stores that list, and the initialisation does not call it.
\<close>

theorem module_init_no_imports:
  "fst (module_init no_imports) = Inr ()
   \<and> WCS (snd (module_init no_imports)) = BareBonesWCS
   \<and> coord_types (snd (module_init no_imports)) = []
   \<and> coord_types (snd (module_init no_imports)) \<noteq> [''fk5'']"
  by (simp add: module_init_def module_vars_def no_imports_def use_def use_astropy_coordinates_def)

text \<open>
  Claim C8, evaluated where it fails. With neither \<^verbatim>\<open>astropy.wcs\<close> nor
  \<^verbatim>\<open>pywcs\<close> importable, \<^verbatim>\<open>use('astropy')\<close> raises \<^verbatim>\<open>ImportError\<close> in strict
  mode; in lenient mode the same call goes on to the second \<^verbatim>\<open>try\<close> block, and when
  \<^verbatim>\<open>astropy.coordinates\<close> and \<^verbatim>\<open>astropy.units\<close> can be imported it returns
  \<^verbatim>\<open>True\<close> and replaces the active engine class and the supported systems.
\<close>

theorem use_astropy_lenient_without_wcs:
  "use ''astropy'' True no_wcs_library g = (Inl ImportError, g)
   \<and> use ''astropy'' False no_wcs_library g =
       (Inr True, g\<lparr>have_astropy := True, wcs_configured := True,
                     coord_types := [''icrs'', ''fk5'', ''fk4'', ''galactic''],
                     WCS := AstropyWCS\<rparr>)"
  by (simp add: use_def use_astropy_coordinates_def no_wcs_library_def)

text \<open>
  Everywhere else the two modes agree. When an import of the \<^verbatim>\<open>'kapteyn'\<close>,
  \<^verbatim>\<open>'starlink'\<close> or \<^verbatim>\<open>'astlib'\<close> branch fails, or \<^verbatim>\<open>astropy.coordinates\<close> or
  \<^verbatim>\<open>astropy.units\<close> cannot be imported in the \<^verbatim>\<open>'astropy'\<close> branch, strict mode
  raises \<^verbatim>\<open>ImportError\<close>, lenient mode returns \<^verbatim>\<open>False\<close>, and no module variable
  changes. Lenient mode never raises.
\<close>

lemma use_unavailable:
  assumes "wcspkg = ''kapteyn'' \<and> \<not> imp_kapteyn_wcs env
           \<or> wcspkg = ''starlink'' \<and> \<not> (imp_starlink_Ast env \<and> imp_starlink_Atl env)
           \<or> wcspkg = ''astlib''
               \<and> \<not> (imp_astLib env \<and> (imp_astropy_io_fits env \<or> imp_pyfits env))
           \<or> wcspkg = ''astropy''
               \<and> \<not> (imp_astropy_coordinates env \<and> imp_astropy_units env)"
  shows "use wcspkg True env g = (Inl ImportError, g) \<and> use wcspkg False env g = (Inr False, g)"
proof -
  consider (kapteyn) "wcspkg = ''kapteyn''" "\<not> imp_kapteyn_wcs env"
    | (starlink) "wcspkg = ''starlink''" "\<not> (imp_starlink_Ast env \<and> imp_starlink_Atl env)"
    | (astlib) "wcspkg = ''astlib''"
        "\<not> (imp_astLib env \<and> (imp_astropy_io_fits env \<or> imp_pyfits env))"
    | (astropy) "wcspkg = ''astropy''"
        "\<not> (imp_astropy_coordinates env \<and> imp_astropy_units env)"
    using assms by blast
  then show ?thesis
  proof cases
    case kapteyn
    then show ?thesis by (simp add: use_def)
  next
    case starlink
    then show ?thesis by (simp add: use_def)
  next
    case astlib
    then show ?thesis by (simp add: use_def)
  next
    case astropy
    then have "use_astropy_coordinates r env g = (if r then Inl ImportError else Inr False, g)" for r
      by (simp add: use_astropy_coordinates_def)
    with astropy(1) show ?thesis by (simp add: use_def)
  qed
qed

lemma use_lenient_never_raises: "fst (use wcspkg False env g) \<noteq> Inl e"
  by (simp add: use_def use_astropy_coordinates_def)

text \<open>
  A name that \<^verbatim>\<open>use()\<close> does not know, such as the \<^verbatim>\<open>'pyast'\<close> of the start-up
  loop, returns \<^verbatim>\<open>False\<close> in either mode and changes nothing.
\<close>

lemma use_unknown_name:
  assumes "wcspkg \<notin> {''kapteyn'', ''starlink'', ''astlib'', ''astropy'', ''barebones''}"
  shows "use wcspkg raise_err env g = (Inr False, g)"
  using assms by (simp add: use_def)

lemma use_pyast: "use ''pyast'' raise_err env g = (Inr False, g)"
  by (simp add: use_def)

lemma use_astropy_lenient:
  "use ''astropy'' False env g = use_astropy_coordinates False env g"
  by (simp add: use_def)

text \<open>
  Whatever can be imported: when module initialisation leaves \<^verbatim>\<open>BareBonesWCS\<close> as
  the active engine class, \<^verbatim>\<open>coord_types\<close> is the empty list.
\<close>

lemma module_init_fallback_coord_types:
  assumes "WCS (snd (module_init env)) = BareBonesWCS"
  shows "coord_types (snd (module_init env)) = []"
proof (cases "imp_kapteyn_wcs env")
  case True
  then have "WCS (snd (module_init env)) = KapteynWCS"
    by (simp add: module_init_def module_vars_def use_def)
  with assms show ?thesis by simp
next
  case k: False
  show ?thesis
  proof (cases "imp_starlink_Ast env \<and> imp_starlink_Atl env")
    case True
    with k have "WCS (snd (module_init env)) = StarlinkWCS"
      by (simp add: module_init_def module_vars_def use_def)
    with assms show ?thesis by simp
  next
    case s: False
    show ?thesis
    proof (cases "imp_astropy_coordinates env \<and> imp_astropy_units env")
      case True
      with k s have "WCS (snd (module_init env)) = AstropyWCS"
        by (simp add: module_init_def module_vars_def use_pyast use_astropy_lenient
            use_astropy_coordinates_def use_def [of "''kapteyn''"] use_def [of "''starlink''"])
      with assms show ?thesis by simp
    next
      case False
      with k s show ?thesis
        by (simp add: module_init_def module_vars_def use_pyast use_astropy_lenient
            use_astropy_coordinates_def use_def [of "''kapteyn''"] use_def [of "''starlink''"])
    qed
  qed
qed

section \<open>Properties of the fallback engine\<close>


lemma pixtoradec_needs_physical_reference:
  assumes "get_physical_reference_pixel parse self = Inl e"
  shows "\<exists>e'. pixtoradec parse self idxs coords = Inl e'"
  using assms
  by (auto simp: pixtoradec_def Let_def split: list.splits sum.splits)

lemma radectopix_needs_physical_reference:
  assumes "get_physical_reference_pixel parse self = Inl e"
  shows "\<exists>e'. radectopix parse self ra dec coords = Inl e'"
  using assms
  by (auto simp: radectopix_def split: sum.splits)

text \<open>
  Claim C6. Let \<open>xv\<close> and \<open>yv\<close> be the numbers read from \<^verbatim>\<open>CRVAL1\<close> and
  \<^verbatim>\<open>CRVAL2\<close>. When \<open>0 \<le> xv < 360\<close> and \<open>-90 \<le> yv \<le> 90\<close> (both ends of the second
  range included, 360 itself excluded) the reference sky position is returned. When
  \<open>xv\<close> is negative or at least 360 the first assertion fails; when \<open>xv\<close> is in range
  and \<open>yv\<close> is outside \<open>[-90, 90]\<close> the second one fails. In either case both
  transforms raise too, whatever they are asked: no transform result is produced.
\<close>

theorem get_physical_reference_pixel_range:
  assumes "float_keyword parse self ''CRVAL1'' = Inr xv"
    and "float_keyword parse self ''CRVAL2'' = Inr yv"
  shows "(0 \<le> xv \<and> xv < 360 \<and> - 90 \<le> yv \<and> yv \<le> 90 \<longrightarrow>
            get_physical_reference_pixel parse self = Inr (xv, yv))
         \<and> (xv < 0 \<or> 360 \<le> xv \<longrightarrow>
            get_physical_reference_pixel parse self = Inl (AssertionError ''CRVAL1 out of range''))
         \<and> (0 \<le> xv \<and> xv < 360 \<and> (yv < - 90 \<or> 90 < yv) \<longrightarrow>
            get_physical_reference_pixel parse self = Inl (AssertionError ''CRVAL2 out of range''))
         \<and> (xv < 0 \<or> 360 \<le> xv \<or> yv < - 90 \<or> 90 < yv \<longrightarrow>
            (\<exists>e. pixtoradec parse self idxs coords = Inl e)
            \<and> (\<exists>e. radectopix parse self ra dec coords = Inl e))"
proof -
  have a: "0 \<le> xv \<and> xv < 360 \<and> - 90 \<le> yv \<and> yv \<le> 90 \<longrightarrow>
            get_physical_reference_pixel parse self = Inr (xv, yv)"
    using assms by (simp add: get_physical_reference_pixel_def)
  have b: "xv < 0 \<or> 360 \<le> xv \<longrightarrow>
            get_physical_reference_pixel parse self = Inl (AssertionError ''CRVAL1 out of range'')"
    using assms by (auto simp: get_physical_reference_pixel_def)
  have c: "0 \<le> xv \<and> xv < 360 \<and> (yv < - 90 \<or> 90 < yv) \<longrightarrow>
            get_physical_reference_pixel parse self = Inl (AssertionError ''CRVAL2 out of range'')"
    using assms by (auto simp: get_physical_reference_pixel_def)
  have d: "xv < 0 \<or> 360 \<le> xv \<or> yv < - 90 \<or> 90 < yv \<longrightarrow>
            (\<exists>e. pixtoradec parse self idxs coords = Inl e)
            \<and> (\<exists>e. radectopix parse self ra dec coords = Inl e)"
  proof
    assume out: "xv < 0 \<or> 360 \<le> xv \<or> yv < - 90 \<or> 90 < yv"
    then have "\<exists>e. get_physical_reference_pixel parse self = Inl e"
      using assms by (auto simp: get_physical_reference_pixel_def)
    then obtain e where "get_physical_reference_pixel parse self = Inl e" ..
    then show "(\<exists>e. pixtoradec parse self idxs coords = Inl e)
            \<and> (\<exists>e. radectopix parse self ra dec coords = Inl e)"
      using pixtoradec_needs_physical_reference radectopix_needs_physical_reference by blast
  qed
  from a b c d show ?thesis by blast
qed


lemma upper_deg: "upper ''deg'' = ''DEG''"
  by code_simp

lemma load_scenario:
  "load_header BareBonesWCS_init scenario_header =
     (Inr (), \<lparr>header = scenario_header, coordsys = ''raw'', kind = ''barebones''\<rparr>)"
  by (simp add: load_header_def fix_bad_headers_def fix_unit_def str_attr_def upper_deg
      choose_coord_system_def BareBonesWCS_init_def scenario_header_def)

lemma scenario_reads:
  "get_reference_pixel parse \<lparr>header = scenario_header, coordsys = cs, kind = k\<rparr> = Inr (50, 50)"
  "get_physical_reference_pixel parse \<lparr>header = scenario_header, coordsys = cs, kind = k\<rparr> = Inr (180, 0)"
  "get_pixel_coordinates parse \<lparr>header = scenario_header, coordsys = cs, kind = k\<rparr>
     = Inr (- 0.001, 0, 0, 0.001)"
  by (simp_all add: get_reference_pixel_def get_physical_reference_pixel_def
      get_pixel_coordinates_def float_keywords4_def float_keyword_def get_keyword_def
      py_float_def scenario_header_def)

text \<open>
  Claim C2. In every engine state (so also after a successful load) in which the
  reference pixel, the reference sky position and the CD matrix can be read, and where
  the divisor \<open>cos (radians crval2)\<close> is not zero, \<^verbatim>\<open>pixtoradec\<close> returns exactly
  \<open>ra = (cd11 * (x' - crpix1) + cd12 * (y' - crpix2)) / cos (radians crval2) + crval1\<close> and
  \<open>dec = cd21 * (x' - crpix1) + cd22 * (y' - crpix2) + crval2\<close>, where \<open>(x', y')\<close> is the
  pixel given, each axis incremented by one in the \<^verbatim>\<open>'data'\<close> convention.
\<close>

theorem pixtoradec_formula:
  assumes "get_reference_pixel parse self = Inr (crpix1, crpix2)"
    and "get_physical_reference_pixel parse self = Inr (crval1, crval2)"
    and "get_pixel_coordinates parse self = Inr (cd11, cd12, cd21, cd22)"
    and "cos (radians crval2) \<noteq> 0"
    and "x' = (if coords = ''data'' then x + 1 else x)"
    and "y' = (if coords = ''data'' then y + 1 else y)"
  shows "pixtoradec parse self (x # y # rest) coords =
           Inr ((cd11 * (x' - crpix1) + cd12 * (y' - crpix2)) / cos (radians crval2) + crval1,
                cd21 * (x' - crpix1) + cd22 * (y' - crpix2) + crval2)"
  using assms by (simp add: pixtoradec_def Let_def)

text \<open>
  The scenario of claim C2: the header with \<^verbatim>\<open>CRPIX1 = CRPIX2 = 50\<close>,
  \<^verbatim>\<open>CRVAL1 = 180.0\<close>, \<^verbatim>\<open>CRVAL2 = 0.0\<close> and the CD matrix
  \<^verbatim>\<open>(-0.001, 0, 0, 0.001)\<close> loads, and the reference pixel \<^verbatim>\<open>(50, 50)\<close> in the
  \<^verbatim>\<open>'fits'\<close> convention maps to \<^verbatim>\<open>(180.0, 0.0)\<close>.
\<close>

theorem pixtoradec_formula_witness:
  "fst (load_header BareBonesWCS_init scenario_header) = Inr ()
   \<and> pixtoradec no_parse (snd (load_header BareBonesWCS_init scenario_header)) [50, 50] ''fits''
       = Inr (180, 0)"
proof -
  let ?self = "\<lparr>header = scenario_header, coordsys = ''raw'', kind = ''barebones''\<rparr>"
  have c: "cos (radians 0) \<noteq> 0" by (simp add: radians_def)
  have x: "(50::real) = (if ''fits'' = ''data'' then 50 + 1 else 50)" by simp
  from pixtoradec_formula [OF scenario_reads(1) scenario_reads(2) scenario_reads(3) c x x,
      of no_parse "''raw''" "''barebones''" "[]"]
  have "pixtoradec no_parse ?self [50, 50] ''fits'' = Inr (180, 0)"
    by (simp add: radians_def)
  then show ?thesis by (simp add: load_scenario)
qed

lemma crval_engine_reads:
  "float_keyword parse (crval_engine xv yv) ''CRVAL1'' = Inr xv"
  "float_keyword parse (crval_engine xv yv) ''CRVAL2'' = Inr yv"
  by (simp_all add: crval_engine_def float_keyword_def get_keyword_def py_float_def)

text \<open>
  The boundary cases of claim C6: \<^verbatim>\<open>CRVAL1\<close> of 0 and of just under 360 and
  \<^verbatim>\<open>CRVAL2\<close> of 90 and -90 are accepted; \<^verbatim>\<open>CRVAL1\<close> of 360 or below zero and
  \<^verbatim>\<open>CRVAL2\<close> beyond either end are rejected, and then the transforms raise.
\<close>

theorem get_physical_reference_pixel_range_witness:
  "get_physical_reference_pixel no_parse (crval_engine 0 90) = Inr (0, 90)
   \<and> get_physical_reference_pixel no_parse (crval_engine (360 - 1 / 1000000) (- 90))
       = Inr (360 - 1 / 1000000, - 90)
   \<and> get_physical_reference_pixel no_parse (crval_engine 360 0)
       = Inl (AssertionError ''CRVAL1 out of range'')
   \<and> get_physical_reference_pixel no_parse (crval_engine (- 1 / 10) 0)
       = Inl (AssertionError ''CRVAL1 out of range'')
   \<and> get_physical_reference_pixel no_parse (crval_engine 0 (90 + 1 / 10))
       = Inl (AssertionError ''CRVAL2 out of range'')
   \<and> get_physical_reference_pixel no_parse (crval_engine 0 (- 90 - 1 / 10))
       = Inl (AssertionError ''CRVAL2 out of range'')
   \<and> (\<exists>e. pixtoradec no_parse (crval_engine 360 0) [1, 1] ''data'' = Inl e)
   \<and> (\<exists>e. radectopix no_parse (crval_engine 360 0) 10 10 ''data'' = Inl e)"
proof -
  note r = get_physical_reference_pixel_range [OF crval_engine_reads, of _ _ no_parse]
  have a: "get_physical_reference_pixel no_parse (crval_engine 0 90) = Inr (0, 90)"
    using r [of 0 90] by simp
  have b: "get_physical_reference_pixel no_parse (crval_engine (360 - 1 / 1000000) (- 90))
       = Inr (360 - 1 / 1000000, - 90)"
    using r [of "360 - 1 / 1000000" "- 90"] by simp
  have c: "get_physical_reference_pixel no_parse (crval_engine 360 0)
       = Inl (AssertionError ''CRVAL1 out of range'')"
    using r [of 360 0] by simp
  have d: "get_physical_reference_pixel no_parse (crval_engine (- 1 / 10) 0)
       = Inl (AssertionError ''CRVAL1 out of range'')"
    using r [of "- 1 / 10" 0] by simp
  have e: "get_physical_reference_pixel no_parse (crval_engine 0 (90 + 1 / 10))
       = Inl (AssertionError ''CRVAL2 out of range'')"
    using r [of 0 "90 + 1 / 10"] by simp
  have f: "get_physical_reference_pixel no_parse (crval_engine 0 (- 90 - 1 / 10))
       = Inl (AssertionError ''CRVAL2 out of range'')"
    using r [of 0 "- 90 - 1 / 10"] by simp
  have g: "(\<exists>e. pixtoradec no_parse (crval_engine 360 0) [1, 1] ''data'' = Inl e)
   \<and> (\<exists>e. radectopix no_parse (crval_engine 360 0) 10 10 ''data'' = Inl e)"
    using r [of 360 0 "[1, 1]" "''data''" 10 10] by simp
  from a b c d e f g show ?thesis by blast
qed



end
